theory Spec2Isabelle
  imports Main
begin

section \<open>Data model of \<open>3_users_profil.ipynb\<close>\<close>

text \<open>
  \<open>make_tracks_kv\<close> builds every track event as the four-element list
  \<^verbatim>\<open>[int(line[2]), line[3], int(line[4]), line[5]]\<close>, and \<open>compute_stats_by_user\<close>
  unpacks it as \<^verbatim>\<open>trackid, dtime, mobile, zip = t\<close>. The record below has these four
  components under the names of the unpacking (\<open>zip\<close> is a list function of HOL, so that
  field is \<open>zip_code\<close>). Python integers are unbounded: \<open>int\<close>.
\<close>

record track =
  trackid :: int
  dtime :: string
  mobile :: int
  zip_code :: string

text \<open>
  The exceptions the function body can raise: \<open>ValueError\<close> from the tuple unpacking of
  \<^verbatim>\<open>dtime.split(" ")\<close> and from \<^verbatim>\<open>int(...)\<close>, \<open>IndexError\<close> from the subscript \<^verbatim>\<open>[0]\<close>.
  The source defines no exception of its own.
\<close>

datatype error = ValueError | IndexError

text \<open>
  The local variables of \<open>compute_stats_by_user\<close> that live across loop iterations.
\<close>

record locals =
  mcount :: int
  morning :: int
  afternoon :: int
  evening :: int
  night :: int
  tracklist :: "int list"

section \<open>The string operations of Python used by the function\<close>

text \<open>
  \<^verbatim>\<open>s.split(sep)\<close> with a one-character separator: every occurrence of the separator ends
  a piece, empty pieces are kept, and the result always has at least one piece.
  \<open>cur\<close> holds the piece being read, reversed.
\<close>

fun split_from :: "char \<Rightarrow> string \<Rightarrow> string \<Rightarrow> string list" where
  "split_from sep cur [] = [rev cur]"
| "split_from sep cur (c # cs) =
     (if c = sep then rev cur # split_from sep [] cs
      else split_from sep (c # cur) cs)"

definition py_split :: "char \<Rightarrow> string \<Rightarrow> string list" where
  "py_split sep s = split_from sep [] s"

text \<open>
  \<^verbatim>\<open>int(s)\<close> on a string, base 10, for ASCII text: optional surrounding whitespace, an
  optional sign, then one or more decimal digits; anything else raises \<open>ValueError\<close>.
  The value is unbounded, as a Python integer is.
\<close>

definition is_space :: "char \<Rightarrow> bool" where
  "is_space c \<longleftrightarrow> c \<in> set [CHR '' '', CHR 0x09, CHR 0x0A, CHR 0x0B, CHR 0x0C, CHR 0x0D]"

definition is_digit :: "char \<Rightarrow> bool" where
  "is_digit c \<longleftrightarrow> c \<in> set ''0123456789''"

definition digit_val :: "char \<Rightarrow> int" where
  "digit_val c = int (of_char c) - 48"

definition strip :: "string \<Rightarrow> string" where
  "strip s = rev (dropWhile is_space (rev (dropWhile is_space s)))"

definition digits_val :: "string \<Rightarrow> int" where
  "digits_val ds = foldl (\<lambda>a c. 10 * a + digit_val c) 0 ds"

definition unsigned_int :: "string \<Rightarrow> error + int" where
  "unsigned_int ds =
     (if ds = [] \<or> \<not> list_all is_digit ds then Inl ValueError else Inr (digits_val ds))"

fun signed_int :: "string \<Rightarrow> error + int" where
  "signed_int [] = Inl ValueError"
| "signed_int (c # cs) =
     (if c = CHR ''-'' then map_sum id uminus (unsigned_int cs)
      else if c = CHR ''+'' then unsigned_int cs
      else unsigned_int (c # cs))"

definition py_int :: "string \<Rightarrow> error + int" where
  "py_int s = signed_int (strip s)"

section \<open>\<open>compute_stats_by_user\<close>\<close>

text \<open>
  \<^verbatim>\<open>d,t = dtime.split(" ")\<close> followed by \<^verbatim>\<open>hour_of_day = int(t.split(":")[0])\<close>.
  The unpacking needs exactly two pieces.
\<close>

definition hour_of_day :: "string \<Rightarrow> error + int" where
  "hour_of_day dt =
     (case py_split CHR '' '' dt of
        [d, t] \<Rightarrow>
          (case py_split CHR '':'' t of
             [] \<Rightarrow> Inl IndexError
           | h # _ \<Rightarrow> py_int h)
      | _ \<Rightarrow> Inl ValueError)"

text \<open>
  The chain \<^verbatim>\<open>if (hour_of_day < 5): night += 1 elif (hour_of_day < 12): morning += 1
  elif (hour_of_day < 17): afternoon += 1 elif (hour_of_day < 22): evening += 1
  else: night += 1\<close>.
\<close>

definition count_period :: "int \<Rightarrow> locals \<Rightarrow> locals" where
  "count_period h st =
     (if h < 5 then st\<lparr>night := night st + 1\<rparr>
      else if h < 12 then st\<lparr>morning := morning st + 1\<rparr>
      else if h < 17 then st\<lparr>afternoon := afternoon st + 1\<rparr>
      else if h < 22 then st\<lparr>evening := evening st + 1\<rparr>
      else st\<lparr>night := night st + 1\<rparr>)"

text \<open>
  \<^verbatim>\<open>if trackid not in tracklist: tracklist.append(trackid)\<close>
\<close>

definition add_track :: "int \<Rightarrow> locals \<Rightarrow> locals" where
  "add_track i st =
     (if i \<notin> set (tracklist st) then st\<lparr>tracklist := tracklist st @ [i]\<rparr> else st)"

text \<open>
  The statements of the loop body before its \<^verbatim>\<open>return\<close>, in the order of the source:
  the track list, the hour (which may raise), the mobile count, the period of the day.
\<close>

definition loop_body :: "locals \<Rightarrow> track \<Rightarrow> error + locals" where
  "loop_body st t =
     (let st1 = add_track (trackid t) st in
      case hour_of_day (dtime t) of
        Inl e \<Rightarrow> Inl e
      | Inr h \<Rightarrow> Inr (count_period h (st1\<lparr>mcount := mcount st1 + mobile t\<rparr>)))"

text \<open>
  The value of \<^verbatim>\<open>[len(tracklist), morning, afternoon, evening, night, mcount]\<close>.
\<close>

definition summary :: "locals \<Rightarrow> int list" where
  "summary st =
     [int (length (tracklist st)), morning st, afternoon st, evening st, night st, mcount st]"

text \<open>
  The \<^verbatim>\<open>for t in tracks\<close> loop. Its \<^verbatim>\<open>return\<close> statement is indented into the loop body, so
  the first iteration returns and the remaining tracks are never visited. When \<open>tracks\<close>
  is empty the body never runs and the function ends without a \<^verbatim>\<open>return\<close>: the result is
  Python's \<open>None\<close>, modelled as \<open>None\<close> of the option type.
\<close>

fun for_tracks :: "locals \<Rightarrow> track list \<Rightarrow> error + int list option" where
  "for_tracks st [] = Inr None"
| "for_tracks st (t # ts) =
     (case loop_body st t of
        Inl e \<Rightarrow> Inl e
      | Inr st' \<Rightarrow> Inr (Some (summary st')))"

definition compute_stats_by_user :: "track list \<Rightarrow> error + int list option" where
  "compute_stats_by_user tracks =
     for_tracks \<lparr>mcount = 0, morning = 0, afternoon = 0, evening = 0, night = 0,
                 tracklist = []\<rparr> tracks"

section \<open>What the function returns\<close>

lemma hour_of_day_0300: "hour_of_day ''2014-01-01 03:00:00'' = Inr 3"
  by code_simp

lemma hour_of_day_0900: "hour_of_day ''2014-01-01 09:00:00'' = Inr 9"
  by code_simp

lemma hour_of_day_1300: "hour_of_day ''2014-01-01 13:00:00'' = Inr 13"
  by code_simp

text \<open>
  C1. Called on the empty sequence the function does not return the all-zero summary
  \<open>[0, 0, 0, 0, 0, 0]\<close>: the loop body, which holds the only \<^verbatim>\<open>return\<close>, never runs, and
  the result is \<open>None\<close>.
\<close>

theorem empty_group_returns_None:
  "compute_stats_by_user [] = Inr None"
  by (simp add: compute_stats_by_user_def)

text \<open>
  C2. On a non-empty sequence the function returns what it returns on the one-element
  sequence holding only the first record: the result (summary or exception) is decided
  by the first iteration.
\<close>

theorem first_track_only:
  "tracks \<noteq> [] \<Longrightarrow> compute_stats_by_user tracks = compute_stats_by_user [hd tracks]"
  by (cases tracks) (simp_all add: compute_stats_by_user_def)

theorem first_track_only_witness:
  "[\<lparr>trackid = 1, dtime = ''2014-01-01 03:00:00'', mobile = 0, zip_code = ''00001''\<rparr>,
    \<lparr>trackid = 1, dtime = ''2014-01-01 09:00:00'', mobile = 1, zip_code = ''00002''\<rparr>,
    \<lparr>trackid = 2, dtime = ''2014-01-01 23:30:00'', mobile = 1, zip_code = ''00003''\<rparr>] \<noteq> []
   \<and> compute_stats_by_user
     [\<lparr>trackid = 1, dtime = ''2014-01-01 03:00:00'', mobile = 0, zip_code = ''00001''\<rparr>,
      \<lparr>trackid = 1, dtime = ''2014-01-01 09:00:00'', mobile = 1, zip_code = ''00002''\<rparr>,
      \<lparr>trackid = 2, dtime = ''2014-01-01 23:30:00'', mobile = 1, zip_code = ''00003''\<rparr>]
   = compute_stats_by_user
     [\<lparr>trackid = 1, dtime = ''2014-01-01 03:00:00'', mobile = 0, zip_code = ''00001''\<rparr>]"
  using first_track_only
    [of "[\<lparr>trackid = 1, dtime = ''2014-01-01 03:00:00'', mobile = 0, zip_code = ''00001''\<rparr>,
          \<lparr>trackid = 1, dtime = ''2014-01-01 09:00:00'', mobile = 1, zip_code = ''00002''\<rparr>,
          \<lparr>trackid = 2, dtime = ''2014-01-01 23:30:00'', mobile = 1, zip_code = ''00003''\<rparr>]"]
  by simp

text \<open>
  C3. On two records with well-formed timestamps (hours 9 and 13) the four period counters
  of the returned summary add up to 1, not to the number of records, 2: only the first
  record was counted.
\<close>

theorem period_counters_two_tracks:
  "compute_stats_by_user
     [\<lparr>trackid = 1, dtime = ''2014-01-01 09:00:00'', mobile = 0, zip_code = ''00001''\<rparr>,
      \<lparr>trackid = 2, dtime = ''2014-01-01 13:00:00'', mobile = 0, zip_code = ''00002''\<rparr>]
   = Inr (Some [1, 1, 0, 0, 0, 0])"
  by (simp add: compute_stats_by_user_def loop_body_def add_track_def hour_of_day_0900
      count_period_def summary_def)

text \<open>
  C4. The same two records in the two possible orders give different summaries: the
  morning record first counts one morning track, the afternoon record first counts one
  afternoon track.
\<close>

theorem swapped_tracks_differ:
  "compute_stats_by_user
     [\<lparr>trackid = 1, dtime = ''2014-01-01 09:00:00'', mobile = 0, zip_code = ''00001''\<rparr>,
      \<lparr>trackid = 2, dtime = ''2014-01-01 13:00:00'', mobile = 1, zip_code = ''00002''\<rparr>]
   = Inr (Some [1, 1, 0, 0, 0, 0])
   \<and> compute_stats_by_user
     [\<lparr>trackid = 2, dtime = ''2014-01-01 13:00:00'', mobile = 1, zip_code = ''00002''\<rparr>,
      \<lparr>trackid = 1, dtime = ''2014-01-01 09:00:00'', mobile = 0, zip_code = ''00001''\<rparr>]
   = Inr (Some [1, 0, 1, 0, 0, 1])"
  by (simp add: compute_stats_by_user_def loop_body_def add_track_def hour_of_day_0900
      hour_of_day_1300 count_period_def summary_def)

text \<open>
  C5. On the three-record group of the example the function returns
  \<open>[1, 0, 0, 0, 1, 0]\<close> (one unique track, one night track, no mobile track), not
  \<open>[2, 1, 0, 0, 2, 2]\<close>.
\<close>

theorem example_group_summary:
  "compute_stats_by_user
     [\<lparr>trackid = 1, dtime = ''2014-01-01 03:00:00'', mobile = 0, zip_code = ''00001''\<rparr>,
      \<lparr>trackid = 1, dtime = ''2014-01-01 09:00:00'', mobile = 1, zip_code = ''00002''\<rparr>,
      \<lparr>trackid = 2, dtime = ''2014-01-01 23:30:00'', mobile = 1, zip_code = ''00003''\<rparr>]
   = Inr (Some [1, 0, 0, 0, 1, 0])"
  by (simp add: compute_stats_by_user_def loop_body_def add_track_def hour_of_day_0300
      count_period_def summary_def)

text \<open>
  C6. On two records whose device flags are both 1 the mobile counter of the returned
  summary is 1, while the flags add up to 2.
\<close>

theorem mobile_counter_two_tracks:
  "compute_stats_by_user
     [\<lparr>trackid = 1, dtime = ''2014-01-01 09:00:00'', mobile = 1, zip_code = ''00001''\<rparr>,
      \<lparr>trackid = 2, dtime = ''2014-01-01 13:00:00'', mobile = 1, zip_code = ''00002''\<rparr>]
   = Inr (Some [1, 1, 0, 0, 0, 1])
   \<and> sum_list (map mobile
     [\<lparr>trackid = 1, dtime = ''2014-01-01 09:00:00'', mobile = 1, zip_code = ''00001''\<rparr>,
      \<lparr>trackid = 2, dtime = ''2014-01-01 13:00:00'', mobile = 1, zip_code = ''00002''\<rparr>]) = 2"
  by (simp add: compute_stats_by_user_def loop_body_def add_track_def hour_of_day_0900
      count_period_def summary_def)

text \<open>
  C7. On two records with the distinct track identifiers 1 and 2 the unique-track count
  of the returned summary is 1, not 2.
\<close>

theorem unique_count_two_tracks:
  "compute_stats_by_user
     [\<lparr>trackid = 1, dtime = ''2014-01-01 09:00:00'', mobile = 0, zip_code = ''00001''\<rparr>,
      \<lparr>trackid = 2, dtime = ''2014-01-01 09:00:00'', mobile = 0, zip_code = ''00002''\<rparr>]
   = Inr (Some [1, 1, 0, 0, 0, 0])
   \<and> distinct (map trackid
     [\<lparr>trackid = 1, dtime = ''2014-01-01 09:00:00'', mobile = 0, zip_code = ''00001''\<rparr>,
      \<lparr>trackid = 2, dtime = ''2014-01-01 09:00:00'', mobile = 0, zip_code = ''00002''\<rparr>])"
  by (simp add: compute_stats_by_user_def loop_body_def add_track_def hour_of_day_0900
      count_period_def summary_def)

lemma hour_of_day_0500: "hour_of_day ''2014-01-01 05:00:00'' = Inr 5"
  by code_simp

lemma hour_of_day_1200: "hour_of_day ''2014-01-01 12:00:00'' = Inr 12"
  by code_simp

lemma hour_of_day_1700: "hour_of_day ''2014-01-01 17:00:00'' = Inr 17"
  by code_simp

lemma hour_of_day_2200: "hour_of_day ''2014-01-01 22:00:00'' = Inr 22"
  by code_simp

lemma hour_of_day_0000: "hour_of_day ''2014-01-01 00:00:00'' = Inr 0"
  by code_simp

section \<open>One record through the loop body\<close>

lemma loop_body_hour:
  "hour_of_day (dtime t) = Inr h \<Longrightarrow>
   loop_body st t =
     Inr (count_period h ((add_track (trackid t) st)
            \<lparr>mcount := mcount (add_track (trackid t) st) + mobile t\<rparr>))"
  by (simp add: loop_body_def Let_def)

lemma add_track_counters:
  "mcount (add_track i st) = mcount st \<and> morning (add_track i st) = morning st \<and>
   afternoon (add_track i st) = afternoon st \<and> evening (add_track i st) = evening st \<and>
   night (add_track i st) = night st"
  by (simp add: add_track_def)

text \<open>
  C8. A record whose timestamp gives an hour of the 24-hour clock is counted by the loop
  body into the period given by the half-open ranges: night for \<open>[0,5)\<close> and
  \<open>[22,24)\<close>, morning for \<open>[5,12)\<close>, afternoon for \<open>[12,17)\<close>, evening for
  \<open>[17,22)\<close>. The boundary hours 5, 12, 17, 22 and 0 so fall into morning, afternoon,
  evening, night and night.
\<close>

theorem period_of_hour:
  assumes "hour_of_day (dtime t) = Inr h" and "0 \<le> h" and "h < 24"
  shows "\<exists>st'. loop_body st t = Inr st' \<and>
           night st' = night st + of_bool ((0 \<le> h \<and> h < 5) \<or> (22 \<le> h \<and> h < 24)) \<and>
           morning st' = morning st + of_bool (5 \<le> h \<and> h < 12) \<and>
           afternoon st' = afternoon st + of_bool (12 \<le> h \<and> h < 17) \<and>
           evening st' = evening st + of_bool (17 \<le> h \<and> h < 22)"
  using assms by (simp add: loop_body_hour count_period_def add_track_counters)

theorem period_of_hour_witness:
  "(\<exists>st'. loop_body \<lparr>mcount = 0, morning = 0, afternoon = 0, evening = 0, night = 0,
                     tracklist = []\<rparr>
            \<lparr>trackid = 1, dtime = ''2014-01-01 05:00:00'', mobile = 0, zip_code = ''00001''\<rparr>
          = Inr st' \<and>
          night st' = 0 \<and> morning st' = 1 \<and> afternoon st' = 0 \<and> evening st' = 0)
   \<and> (\<exists>st'. loop_body \<lparr>mcount = 0, morning = 0, afternoon = 0, evening = 0, night = 0,
                     tracklist = []\<rparr>
            \<lparr>trackid = 1, dtime = ''2014-01-01 12:00:00'', mobile = 0, zip_code = ''00001''\<rparr>
          = Inr st' \<and>
          night st' = 0 \<and> morning st' = 0 \<and> afternoon st' = 1 \<and> evening st' = 0)
   \<and> (\<exists>st'. loop_body \<lparr>mcount = 0, morning = 0, afternoon = 0, evening = 0, night = 0,
                     tracklist = []\<rparr>
            \<lparr>trackid = 1, dtime = ''2014-01-01 17:00:00'', mobile = 0, zip_code = ''00001''\<rparr>
          = Inr st' \<and>
          night st' = 0 \<and> morning st' = 0 \<and> afternoon st' = 0 \<and> evening st' = 1)
   \<and> (\<exists>st'. loop_body \<lparr>mcount = 0, morning = 0, afternoon = 0, evening = 0, night = 0,
                     tracklist = []\<rparr>
            \<lparr>trackid = 1, dtime = ''2014-01-01 22:00:00'', mobile = 0, zip_code = ''00001''\<rparr>
          = Inr st' \<and>
          night st' = 1 \<and> morning st' = 0 \<and> afternoon st' = 0 \<and> evening st' = 0)
   \<and> (\<exists>st'. loop_body \<lparr>mcount = 0, morning = 0, afternoon = 0, evening = 0, night = 0,
                     tracklist = []\<rparr>
            \<lparr>trackid = 1, dtime = ''2014-01-01 00:00:00'', mobile = 0, zip_code = ''00001''\<rparr>
          = Inr st' \<and>
          night st' = 1 \<and> morning st' = 0 \<and> afternoon st' = 0 \<and> evening st' = 0)"
proof -
  let ?st = "\<lparr>mcount = 0, morning = 0, afternoon = 0, evening = 0, night = 0,
              tracklist = []\<rparr>"
  have h5: "hour_of_day (dtime \<lparr>trackid = 1, dtime = ''2014-01-01 05:00:00'', mobile = 0,
      zip_code = ''00001''\<rparr>) = Inr 5"
    by (simp add: hour_of_day_0500)
  have h12: "hour_of_day (dtime \<lparr>trackid = 1, dtime = ''2014-01-01 12:00:00'', mobile = 0,
      zip_code = ''00001''\<rparr>) = Inr 12"
    by (simp add: hour_of_day_1200)
  have h17: "hour_of_day (dtime \<lparr>trackid = 1, dtime = ''2014-01-01 17:00:00'', mobile = 0,
      zip_code = ''00001''\<rparr>) = Inr 17"
    by (simp add: hour_of_day_1700)
  have h22: "hour_of_day (dtime \<lparr>trackid = 1, dtime = ''2014-01-01 22:00:00'', mobile = 0,
      zip_code = ''00001''\<rparr>) = Inr 22"
    by (simp add: hour_of_day_2200)
  have h0: "hour_of_day (dtime \<lparr>trackid = 1, dtime = ''2014-01-01 00:00:00'', mobile = 0,
      zip_code = ''00001''\<rparr>) = Inr 0"
    by (simp add: hour_of_day_0000)
  show ?thesis
    using period_of_hour [OF h5, of ?st] period_of_hour [OF h12, of ?st]
      period_of_hour [OF h17, of ?st] period_of_hour [OF h22, of ?st]
      period_of_hour [OF h0, of ?st]
    by simp
qed

text \<open>
  C10. The chain of comparisons counts every integer hour into exactly one of the four
  periods: one counter grows by one, the other three, the mobile count and the track list
  stay as they are. A negative hour is a night hour by the first test \<open>hour_of_day < 5\<close>,
  an hour of 22 or more (also beyond 23) by the final \<open>else\<close>.
\<close>

theorem count_period_total:
  "[morning (count_period h st) - morning st, afternoon (count_period h st) - afternoon st,
    evening (count_period h st) - evening st, night (count_period h st) - night st]
     \<in> set [[1, 0, 0, 0], [0, 1, 0, 0], [0, 0, 1, 0], [0, 0, 0, 1]]
   \<and> mcount (count_period h st) = mcount st
   \<and> tracklist (count_period h st) = tracklist st
   \<and> (h < 0 \<or> 22 \<le> h \<longrightarrow> count_period h st = st\<lparr>night := night st + 1\<rparr>)"
  by (simp add: count_period_def)

theorem count_period_total_witness:
  "((99::int) < 0 \<or> (22::int) \<le> 99) \<and> ((-3::int) < 0 \<or> (22::int) \<le> -3)
   \<and> count_period 99 \<lparr>mcount = 4, morning = 1, afternoon = 1, evening = 1, night = 1,
                       tracklist = [7, 8]\<rparr>
     = \<lparr>mcount = 4, morning = 1, afternoon = 1, evening = 1, night = 2, tracklist = [7, 8]\<rparr>
   \<and> count_period (-3) \<lparr>mcount = 4, morning = 1, afternoon = 1, evening = 1, night = 1,
                         tracklist = [7, 8]\<rparr>
     = \<lparr>mcount = 4, morning = 1, afternoon = 1, evening = 1, night = 2, tracklist = [7, 8]\<rparr>"
  using count_period_total [of 99 "\<lparr>mcount = 4, morning = 1, afternoon = 1, evening = 1,
      night = 1, tracklist = [7, 8]\<rparr>"]
    count_period_total [of "-3" "\<lparr>mcount = 4, morning = 1, afternoon = 1, evening = 1,
      night = 1, tracklist = [7, 8]\<rparr>"]
  by simp

text \<open>
  C9. The function has no check of the device flag. A single record with the flag 2 and a
  well-formed timestamp raises nothing: the summary is returned with the mobile count 2.
\<close>

theorem flag_two_counterexample:
  "compute_stats_by_user
     [\<lparr>trackid = 1, dtime = ''2014-01-01 09:00:00'', mobile = 2, zip_code = ''00001''\<rparr>]
   = Inr (Some [1, 1, 0, 0, 0, 2])"
  by (simp add: compute_stats_by_user_def loop_body_def add_track_def hour_of_day_0900
      count_period_def summary_def)

text \<open>
  C9, as the code has it. For a record whose timestamp gives an hour, the loop body adds
  the device flag to the mobile count as it is, whatever integer it is, and raises
  nothing; on the sequence of that one record the function returns a summary whose mobile
  count is the flag.
\<close>

theorem flag_added_unchecked:
  assumes "hour_of_day (dtime t) = Inr h"
  shows "(\<exists>st'. loop_body st t = Inr st' \<and> mcount st' = mcount st + mobile t)
         \<and> (\<exists>u m a e n. compute_stats_by_user [t] = Inr (Some [u, m, a, e, n, mobile t]))"
proof
  show "\<exists>st'. loop_body st t = Inr st' \<and> mcount st' = mcount st + mobile t"
    using assms by (simp add: loop_body_hour count_period_def add_track_counters)
  show "\<exists>u m a e n. compute_stats_by_user [t] = Inr (Some [u, m, a, e, n, mobile t])"
    using assms
    by (simp add: compute_stats_by_user_def loop_body_hour count_period_def summary_def
        add_track_counters)
qed

theorem flag_added_unchecked_witness:
  "hour_of_day (dtime \<lparr>trackid = 1, dtime = ''2014-01-01 09:00:00'', mobile = - 7,
      zip_code = ''00001''\<rparr>) = Inr 9
   \<and> (\<exists>st'. loop_body \<lparr>mcount = 3, morning = 0, afternoon = 0, evening = 0, night = 0,
                       tracklist = []\<rparr>
              \<lparr>trackid = 1, dtime = ''2014-01-01 09:00:00'', mobile = - 7,
                zip_code = ''00001''\<rparr> = Inr st' \<and> mcount st' = - 4)
   \<and> (\<exists>u m a e n. compute_stats_by_user
         [\<lparr>trackid = 1, dtime = ''2014-01-01 09:00:00'', mobile = - 7, zip_code = ''00001''\<rparr>]
       = Inr (Some [u, m, a, e, n, - 7]))"
proof -
  have h: "hour_of_day (dtime \<lparr>trackid = 1, dtime = ''2014-01-01 09:00:00'', mobile = - 7,
      zip_code = ''00001''\<rparr>) = Inr 9"
    by (simp add: hour_of_day_0900)
  show ?thesis
    using h flag_added_unchecked [OF h, of "\<lparr>mcount = 3, morning = 0, afternoon = 0,
      evening = 0, night = 0, tracklist = []\<rparr>"]
    by simp
qed

end
